theory Spec2Isabelle
  imports Main
begin

section \<open>Python string primitives used by the bot\<close>

text \<open>
  Strings are lists of bytes. The handlers use \<^verbatim>\<open>str.startswith\<close>,
  \<^verbatim>\<open>str.split(sep)\<close>, \<^verbatim>\<open>sep in s\<close>, \<^verbatim>\<open>str.replace(old, new)\<close>, the
  formatting of an integer inside an f-string and \<^verbatim>\<open>int(text)\<close>.
\<close>

definition startswith :: "string \<Rightarrow> string \<Rightarrow> bool" where
  "startswith s p = (take (length p) s = p)"

text \<open>\<^verbatim>\<open>s.split(sep)\<close> for a non-empty separator: a scan from the left over
  non-overlapping occurrences; \<open>cur\<close> is the piece read so far.\<close>

fun split_from :: "string \<Rightarrow> string \<Rightarrow> string \<Rightarrow> string list" where
  "split_from sep cur [] = [cur]"
| "split_from sep cur (c # cs) =
     (if sep \<noteq> [] \<and> startswith (c # cs) sep
      then cur # split_from sep [] (drop (length sep - 1) cs)
      else split_from sep (cur @ [c]) cs)"

definition py_split :: "string \<Rightarrow> string \<Rightarrow> string list" where
  "py_split s sep = split_from sep [] s"

definition py_in :: "string \<Rightarrow> string \<Rightarrow> bool" where
  "py_in sep s = (length (py_split s sep) > 1)"

text \<open>\<^verbatim>\<open>s.replace(old, new)\<close> for a non-empty \<open>old\<close>: every non-overlapping
  occurrence, from the left.\<close>

fun py_replace :: "string \<Rightarrow> string \<Rightarrow> string \<Rightarrow> string" where
  "py_replace [] old new = []"
| "py_replace (c # cs) old new =
     (if old \<noteq> [] \<and> startswith (c # cs) old
      then new @ py_replace (drop (length old - 1) cs) old new
      else c # py_replace cs old new)"

definition digit_char :: "nat \<Rightarrow> char" where
  "digit_char n = char_of (48 + n)"

fun str_nat :: "nat \<Rightarrow> string" where
  "str_nat n = (if n < 10 then [digit_char n] else str_nat (n div 10) @ [digit_char (n mod 10)])"

declare str_nat.simps [simp del]

definition str_int :: "int \<Rightarrow> string" where
  "str_int i = (if i < 0 then CHR ''-'' # str_nat (nat (- i)) else str_nat (nat i))"

text \<open>
  \<^verbatim>\<open>int(text)\<close> on the ASCII fragment: surrounding whitespace is stripped, one
  sign is allowed, then decimal digits, with single underscores allowed between digits.
  \<open>None\<close> is the \<^verbatim>\<open>ValueError\<close>.
\<close>

definition is_space :: "char \<Rightarrow> bool" where
  "is_space c = (c \<in> set [CHR 0x20, CHR 0x09, CHR 0x0A, CHR 0x0B, CHR 0x0C, CHR 0x0D,
                           CHR 0x1C, CHR 0x1D, CHR 0x1E, CHR 0x1F])"

definition is_digit :: "char \<Rightarrow> bool" where
  "is_digit c = (48 \<le> (of_char c :: nat) \<and> (of_char c :: nat) \<le> 57)"

definition digit_val :: "char \<Rightarrow> nat" where
  "digit_val c = of_char c - 48"

definition py_strip :: "string \<Rightarrow> string" where
  "py_strip s = rev (dropWhile is_space (rev (dropWhile is_space s)))"

fun py_digits :: "nat \<Rightarrow> string \<Rightarrow> nat option" where
  "py_digits acc [] = None"
| "py_digits acc [c] = (if is_digit c then Some (10 * acc + digit_val c) else None)"
| "py_digits acc (c # d # ds) =
     (if is_digit c
      then (if d = CHR ''_'' then py_digits (10 * acc + digit_val c) ds
            else py_digits (10 * acc + digit_val c) (d # ds))
      else None)"

definition py_int :: "string \<Rightarrow> int option" where
  "py_int text =
     (case py_strip text of
        [] \<Rightarrow> None
      | c # cs \<Rightarrow>
          if c = CHR ''-'' then map_option (\<lambda>n. - int n) (py_digits 0 cs)
          else if c = CHR ''+'' then map_option int (py_digits 0 cs)
          else map_option int (py_digits 0 (c # cs)))"

text \<open>Python's slice \<^verbatim>\<open>xs[start:end]\<close> with integer bounds: a negative bound counts
  from the end, and every bound is clamped to the list.\<close>

definition slice_bound :: "int \<Rightarrow> nat \<Rightarrow> nat" where
  "slice_bound i n = (if i < 0 then nat (max 0 (int n + i)) else min (nat i) n)"

definition py_slice :: "'a list \<Rightarrow> int \<Rightarrow> int \<Rightarrow> 'a list" where
  "py_slice xs start stop =
     (let a = slice_bound start (length xs); b = slice_bound stop (length xs)
      in take (b - a) (drop a xs))"

section \<open>The two tables\<close>

text \<open>
  \<^verbatim>\<open>volunteers(id SERIAL PRIMARY KEY, full_name, contacts, status DEFAULT 'Active',
  lateness_count DEFAULT 0, warnings_count DEFAULT 0)\<close> and
  \<^verbatim>\<open>blacklist(id SERIAL PRIMARY KEY, full_name UNIQUE, reason, added)\<close>.
  A table is the list of its rows in insertion order; a serial column draws from a
  counter kept beside the tables. Rows come into being only through the bot's
  \<^verbatim>\<open>INSERT\<close>, which leaves the defaulted columns to their defaults, so the
  counters and the status hold no \<^verbatim>\<open>NULL\<close> and \<^verbatim>\<open>x or 0\<close> is \<open>x\<close>. The column
  \<^verbatim>\<open>added\<close> (the time of insertion) is not represented. Ids and counters are
  mathematical integers: the range of the integer columns, beyond which the database
  rejects a parameter or an increment, is not represented.
\<close>

record volunteer =
  vid :: int
  full_name :: string
  contacts :: string
  status :: string
  lateness_count :: int
  warnings_count :: int

record blacklist_entry =
  bid :: int
  bl_full_name :: string
  reason :: string

record database =
  volunteers :: "volunteer list"
  blacklist :: "blacklist_entry list"
  volunteers_id_seq :: int
  blacklist_id_seq :: int


datatype exn =
    ValueError
  | KeyError
  | NotNullViolationError
  | DataError
  | UninterpretedStatement

text \<open>\<^verbatim>\<open>SELECT ... FROM volunteers WHERE id = $1\<close> read with \<^verbatim>\<open>fetchrow\<close>: the
  first matching row, or nothing.\<close>

definition fetch_volunteer :: "int \<Rightarrow> database \<Rightarrow> volunteer option" where
  "fetch_volunteer i db = find (\<lambda>v. vid v = i) (volunteers db)"

text \<open>\<^verbatim>\<open>UPDATE volunteers SET ... WHERE id = $1\<close>: every row with that id is
  rewritten by \<open>f\<close>.\<close>

definition update_volunteers :: "(volunteer \<Rightarrow> volunteer) \<Rightarrow> int \<Rightarrow> database \<Rightarrow> database" where
  "update_volunteers f i db =
     db\<lparr>volunteers := map (\<lambda>v. if vid v = i then f v else v) (volunteers db)\<rparr>"

text \<open>\<^verbatim>\<open>INSERT INTO blacklist (full_name, reason) VALUES ($1, $2) ON CONFLICT DO
  NOTHING\<close>: the unique column is \<^verbatim>\<open>full_name\<close>, so a row with that name makes the
  statement a no-op.\<close>

definition insert_blacklist :: "string \<Rightarrow> string \<Rightarrow> database \<Rightarrow> database" where
  "insert_blacklist name why db =
     (if list_ex (\<lambda>e. bl_full_name e = name) (blacklist db) then db
      else db\<lparr>blacklist := blacklist db @
                  [\<lparr>bid = blacklist_id_seq db, bl_full_name = name, reason = why\<rparr>],
              blacklist_id_seq := blacklist_id_seq db + 1\<rparr>)"

text \<open>\<^verbatim>\<open>DELETE FROM volunteers WHERE id=$1\<close>; the parameter is \<open>None\<close> when the
  handler found no id (\<^verbatim>\<open>id = NULL\<close> matches no row).\<close>

definition delete_volunteer :: "int option \<Rightarrow> database \<Rightarrow> database" where
  "delete_volunteer p db =
     (case p of
        None \<Rightarrow> db
      | Some i \<Rightarrow> db\<lparr>volunteers := filter (\<lambda>v. vid v \<noteq> i) (volunteers db)\<rparr>)"

text \<open>\<^verbatim>\<open>get_volunteers\<close> and \<^verbatim>\<open>get_blacklist\<close>: all rows, \<^verbatim>\<open>ORDER BY id\<close>.\<close>

definition get_volunteers :: "database \<Rightarrow> volunteer list" where
  "get_volunteers db = sort_key vid (volunteers db)"

definition get_blacklist :: "database \<Rightarrow> blacklist_entry list" where
  "get_blacklist db = sort_key bid (blacklist db)"

text \<open>\<^verbatim>\<open>add_volunteer\<close>: a row with the same name and contact raises
  \<^verbatim>\<open>ValueError\<close>; a missing name (the caller read it with \<^verbatim>\<open>data.get\<close>) violates
  \<^verbatim>\<open>NOT NULL\<close> at the insert.\<close>

definition add_volunteer :: "string option \<Rightarrow> string \<Rightarrow> database \<Rightarrow> exn + database" where
  "add_volunteer name_opt contact db =
     (case name_opt of
        None \<Rightarrow> Inl NotNullViolationError
      | Some name \<Rightarrow>
          if list_ex (\<lambda>v. full_name v = name \<and> contacts v = contact) (volunteers db)
          then Inl ValueError
          else Inr (db\<lparr>volunteers := volunteers db @
                         [\<lparr>vid = volunteers_id_seq db, full_name = name, contacts = contact,
                           status = ''Active'', lateness_count = 0, warnings_count = 0\<rparr>],
                       volunteers_id_seq := volunteers_id_seq db + 1\<rparr>))"

section \<open>What the bot sends\<close>

text \<open>
  A keyboard is a list of rows of buttons; a button is its caption and its callback
  data, whichever way the source passes the caption to the library's class. Captions
  and message texts are display literals of the source; each literal is one constructor,
  with the values interpolated into it as arguments.
\<close>

datatype caption =
    CapVolunteers | CapLateness | CapWarning | CapBlacklistDirect
  | CapAdd | CapEdit | CapBlacklist | CapManage
  | CapStatistics | CapSearch | CapDeleteVolunteer | CapBack
  | CapPagePrevious | CapPageNext | CapMainMenu
  | CapEditFullName | CapEditContacts
  | CapConfirmYes | CapConfirmNo

record button =
  caption :: caption
  callback_data :: string

type_synonym keyboard = "button list list"

definition InlineKeyboardButton :: "caption \<Rightarrow> string \<Rightarrow> button" where
  "InlineKeyboardButton c d = \<lparr>caption = c, callback_data = d\<rparr>"

definition main_menu :: keyboard where
  "main_menu =
     [[InlineKeyboardButton CapVolunteers ''menu_volunteers'',
       InlineKeyboardButton CapLateness ''menu_lateness''],
      [InlineKeyboardButton CapWarning ''menu_warning'',
       InlineKeyboardButton CapBlacklistDirect ''menu_blacklist_direct''],
      [InlineKeyboardButton CapAdd ''menu_add_volunteer'',
       InlineKeyboardButton CapEdit ''menu_edit_volunteer''],
      [InlineKeyboardButton CapBlacklist ''menu_blacklist'',
       InlineKeyboardButton CapManage ''menu_manage'']]"

definition manage_menu :: keyboard where
  "manage_menu =
     [[InlineKeyboardButton CapStatistics ''menu_statistics'',
       InlineKeyboardButton CapSearch ''menu_search''],
      [InlineKeyboardButton CapDeleteVolunteer ''menu_delete_volunteer''],
      [InlineKeyboardButton CapBack ''menu_back'']]"

datatype row = VolunteerRow volunteer | BlacklistRow blacklist_entry

datatype line_format = VolunteerFormat | BlacklistFormat

datatype list_title = DefaultTitle | VolunteersTitle | BlacklistTitle

text \<open>A line of a rendered list is the row it prints and the f-string chosen for
  it.\<close>

datatype message =
    VolunteerNotFound
  | VolunteerBlacklisted string int
  | ViolationRecorded string int int int
  | DirectBlacklisted string string
  | MainMenuTitle
  | ListEmpty list_title
  | ListPage list_title "(line_format \<times> row) list"
  | AskLatenessId | AskWarningId | AskBlacklistId | AskFullName | AskEditId
  | ChooseAction
  | Statistics int int int int
  | AskSearchQuery | AskDeleteId
  | VolunteerDeleted | DeleteCancelled
  | AskNewValue string
  | EnterNumber
  | AskBlacklistReason
  | AskContact
  | VolunteerAdded "string option"
  | AlreadyExists
  | ChooseField
  | FieldUpdated string string
  | SearchResults "volunteer list"
  | NothingFound
  | VolunteerNotFoundManage
  | ConfirmDelete string

datatype action =
    Answer message "keyboard option"
  | EditText message "keyboard option"
  | AnswerCallback

section \<open>Violations and the blacklist\<close>

text \<open>The fixed tail of the reason that \<^verbatim>\<open>check_and_blacklist\<close> writes after the
  total, as the UTF-8 bytes of the source's literal.\<close>

definition violations_reason :: string where
  "violations_reason =
     [CHR 0x20, CHR 0xD0, CHR 0xBD, CHR 0xD0, CHR 0xB0, CHR 0xD1, CHR 0x80, CHR 0xD1,
      CHR 0x83, CHR 0xD1, CHR 0x88, CHR 0xD0, CHR 0xB5, CHR 0xD0, CHR 0xBD, CHR 0xD0,
      CHR 0xB8, CHR 0xD0, CHR 0xB9, CHR 0x20, CHR 0x28, CHR 0xD0, CHR 0xBE, CHR 0xD0,
      CHR 0xBF, CHR 0xD0, CHR 0xBE, CHR 0xD0, CHR 0xB7, CHR 0xD0, CHR 0xB4, CHR 0xD0,
      CHR 0xB0, CHR 0xD0, CHR 0xBD, CHR 0xD0, CHR 0xB8, CHR 0xD1, CHR 0x8F, CHR 0x20,
      CHR 0x2B, CHR 0x20, CHR 0xD0, CHR 0xB7, CHR 0xD0, CHR 0xB0, CHR 0xD0, CHR 0xBC,
      CHR 0xD0, CHR 0xB5, CHR 0xD1, CHR 0x87, CHR 0xD0, CHR 0xB0, CHR 0xD0, CHR 0xBD,
      CHR 0xD0, CHR 0xB8, CHR 0xD1, CHR 0x8F, CHR 0x29]"

definition check_and_blacklist :: "int \<Rightarrow> database \<Rightarrow> database \<times> action list" where
  "check_and_blacklist volunteer_id db =
     (case fetch_volunteer volunteer_id db of
        None \<Rightarrow> (db, [Answer VolunteerNotFound None])
      | Some r \<Rightarrow>
          let total_violations = lateness_count r + warnings_count r in
          if total_violations \<ge> 3 \<and> status r \<noteq> ''Blacklisted''
          then (insert_blacklist (full_name r) (str_int total_violations @ violations_reason)
                  (update_volunteers (\<lambda>v. v\<lparr>status := ''Blacklisted''\<rparr>) volunteer_id db),
                [Answer (VolunteerBlacklisted (full_name r) total_violations) None])
          else (db, [Answer (ViolationRecorded (full_name r) (lateness_count r)
                               (warnings_count r) total_violations) None]))"

definition add_lateness :: "int \<Rightarrow> database \<Rightarrow> database \<times> action list" where
  "add_lateness volunteer_id db =
     check_and_blacklist volunteer_id
       (update_volunteers (\<lambda>v. v\<lparr>lateness_count := lateness_count v + 1\<rparr>) volunteer_id db)"

definition add_warning :: "int \<Rightarrow> database \<Rightarrow> database \<times> action list" where
  "add_warning volunteer_id db =
     check_and_blacklist volunteer_id
       (update_volunteers (\<lambda>v. v\<lparr>warnings_count := warnings_count v + 1\<rparr>) volunteer_id db)"

definition add_direct_blacklist :: "int \<Rightarrow> string \<Rightarrow> database \<Rightarrow> database \<times> action list" where
  "add_direct_blacklist volunteer_id why db =
     (case fetch_volunteer volunteer_id db of
        None \<Rightarrow> (db, [Answer VolunteerNotFound None])
      | Some r \<Rightarrow>
          (insert_blacklist (full_name r) why
             (update_volunteers (\<lambda>v. v\<lparr>status := ''Blacklisted''\<rparr>) volunteer_id db),
           [Answer (DirectBlacklisted (full_name r) why) None]))"

section \<open>The edit statement\<close>

text \<open>
  The edit flow builds its statement by interpolating the stored field name:
  \<^verbatim>\<open>f"UPDATE volunteers SET {field}=$1 WHERE id=$2"\<close>, and binds the new value, a
  string, to \<^verbatim>\<open>$1\<close>. The statement is executed as text: naming a text column it
  rewrites that column, naming an integer column it is rejected for the type of its
  parameter. Any other text makes a statement whose structure is the caller's; such
  statements are not interpreted here, and no theorem below rests on that case.
\<close>

definition edit_statement :: "string \<Rightarrow> string" where
  "edit_statement field = ''UPDATE volunteers SET '' @ field @ ''=$1 WHERE id=$2''"

definition execute_edit :: "string \<Rightarrow> string \<Rightarrow> int \<Rightarrow> database \<Rightarrow> exn + database" where
  "execute_edit sql new_value volunteer_id db =
     (if sql = edit_statement ''full_name''
      then Inr (update_volunteers (\<lambda>v. v\<lparr>full_name := new_value\<rparr>) volunteer_id db)
      else if sql = edit_statement ''contacts''
      then Inr (update_volunteers (\<lambda>v. v\<lparr>contacts := new_value\<rparr>) volunteer_id db)
      else if sql = edit_statement ''status''
      then Inr (update_volunteers (\<lambda>v. v\<lparr>status := new_value\<rparr>) volunteer_id db)
      else if sql = edit_statement ''id'' \<or> sql = edit_statement ''lateness_count''
              \<or> sql = edit_statement ''warnings_count''
      then Inl DataError
      else Inl UninterpretedStatement)"

section \<open>Paginated lists\<close>

definition PAGE_SIZE :: int where
  "PAGE_SIZE = 5"

definition pagination_markup :: "int \<Rightarrow> int \<Rightarrow> string \<Rightarrow> keyboard" where
  "pagination_markup page total_pages prefix =
     (let nav_buttons =
            (if page > 0
             then [InlineKeyboardButton CapPagePrevious (prefix @ ''_page_'' @ str_int (page - 1))]
             else [])
          @ (if page < total_pages - 1
             then [InlineKeyboardButton CapPageNext (prefix @ ''_page_'' @ str_int (page + 1))]
             else [])
      in (if nav_buttons \<noteq> [] then [nav_buttons] else [])
         @ [[InlineKeyboardButton CapMainMenu ''menu_main'']])"

text \<open>The loop over the slice: the volunteers' f-string under the prefix
  \<^verbatim>\<open>volunteers\<close>, the blacklist's under \<^verbatim>\<open>blacklist\<close>, and no line under any
  other prefix.\<close>

definition format_rows :: "string \<Rightarrow> row list \<Rightarrow> (line_format \<times> row) list" where
  "format_rows prefix rs =
     (if prefix = ''volunteers'' then map (Pair VolunteerFormat) rs
      else if prefix = ''blacklist'' then map (Pair BlacklistFormat) rs
      else [])"

definition show_records :: "row list \<Rightarrow> int \<Rightarrow> string \<Rightarrow> list_title \<Rightarrow> action list" where
  "show_records rows page prefix title =
     (if rows = [] then [EditText (ListEmpty title) (Some main_menu)]
      else
        let total_pages = (int (length rows) + PAGE_SIZE - 1) div PAGE_SIZE;
            start = page * PAGE_SIZE;
            stop = start + PAGE_SIZE
        in [EditText (ListPage title (format_rows prefix (py_slice rows start stop)))
              (Some (pagination_markup page total_pages prefix))])"

section \<open>The conversation state of one principal\<close>

text \<open>
  The states of the source's \<^verbatim>\<open>StatesGroup\<close> classes; no state (\<open>None\<close>) is the
  idle conversation. The scratch data is the dictionary of the \<^verbatim>\<open>FSMContext\<close>; the
  handlers store three keys in it, \<^verbatim>\<open>volunteer_id\<close> (an integer), \<^verbatim>\<open>full_name\<close> and
  \<^verbatim>\<open>field\<close> (strings), so it is a record of three optional values.
\<close>

datatype fsm_state =
    LatenessStates_waiting_for_id
  | AddVolunteerStates_waiting_for_full_name
  | AddVolunteerStates_waiting_for_contact
  | EditVolunteerStates_waiting_for_id
  | EditVolunteerStates_waiting_for_field
  | EditVolunteerStates_waiting_for_new_value
  | SearchVolunteerStates_waiting_for_query
  | DeleteVolunteerStates_waiting_for_id
  | DeleteVolunteerStates_confirm_delete
  | WarningStates_waiting_for_id
  | BlacklistDirectStates_waiting_for_id
  | BlacklistDirectStates_waiting_for_reason

record fsm_data =
  data_volunteer_id :: "int option"
  data_full_name :: "string option"
  data_field :: "string option"

record fsm_context =
  current_state :: "fsm_state option"
  data :: fsm_data

definition no_data :: fsm_data where
  "no_data = \<lparr>data_volunteer_id = None, data_full_name = None, data_field = None\<rparr>"

definition set_state :: "fsm_state \<Rightarrow> fsm_context \<Rightarrow> fsm_context" where
  "set_state st ctx = ctx\<lparr>current_state := Some st\<rparr>"

definition clear :: "fsm_context \<Rightarrow> fsm_context" where
  "clear ctx = \<lparr>current_state = None, data = no_data\<rparr>"

text \<open>What a handler leaves behind: the context, the database, what it sent, and the
  exception that ended it, if one did.\<close>

record result =
  ctx_after :: fsm_context
  db_after :: database
  sent :: "action list"
  raised :: "exn option"

definition finished :: "fsm_context \<Rightarrow> database \<Rightarrow> action list \<Rightarrow> result" where
  "finished ctx db out = \<lparr>ctx_after = ctx, db_after = db, sent = out, raised = None\<rparr>"

definition failed :: "fsm_context \<Rightarrow> database \<Rightarrow> action list \<Rightarrow> exn \<Rightarrow> result" where
  "failed ctx db out e = \<lparr>ctx_after = ctx, db_after = db, sent = out, raised = Some e\<rparr>"

section \<open>The callback handlers\<close>

definition callbacks :: "string \<Rightarrow> fsm_context \<Rightarrow> database \<Rightarrow> result" where
  "callbacks query_data ctx db =
     (if query_data = ''menu_volunteers''
      then finished ctx db
             (show_records (map VolunteerRow (get_volunteers db)) 0 ''volunteers'' VolunteersTitle)
      else if query_data = ''menu_lateness''
      then finished (set_state LatenessStates_waiting_for_id ctx) db [EditText AskLatenessId None]
      else if query_data = ''menu_warning''
      then finished (set_state WarningStates_waiting_for_id ctx) db [EditText AskWarningId None]
      else if query_data = ''menu_blacklist''
      then finished ctx db
             (show_records (map BlacklistRow (get_blacklist db)) 0 ''blacklist'' BlacklistTitle)
      else if query_data = ''menu_blacklist_direct''
      then finished (set_state BlacklistDirectStates_waiting_for_id ctx) db
             [EditText AskBlacklistId None]
      else if query_data = ''menu_add_volunteer''
      then finished (set_state AddVolunteerStates_waiting_for_full_name ctx) db
             [EditText AskFullName None]
      else if query_data = ''menu_edit_volunteer''
      then finished (set_state EditVolunteerStates_waiting_for_id ctx) db [EditText AskEditId None]
      else if query_data = ''menu_manage''
      then finished ctx db [EditText ChooseAction (Some manage_menu)]
      else if query_data = ''menu_statistics''
      then finished ctx db
             [EditText (Statistics (int (length (volunteers db)))
                          (sum_list (map lateness_count (volunteers db)))
                          (sum_list (map warnings_count (volunteers db)))
                          (int (length (filter (\<lambda>v. status v = ''Blacklisted'') (volunteers db)))))
                (Some manage_menu)]
      else if query_data = ''menu_search''
      then finished (set_state SearchVolunteerStates_waiting_for_query ctx) db
             [EditText AskSearchQuery None]
      else if query_data = ''menu_delete_volunteer''
      then finished (set_state DeleteVolunteerStates_waiting_for_id ctx) db
             [EditText AskDeleteId None]
      else if query_data = ''menu_back''
      then finished ctx db [EditText MainMenuTitle (Some main_menu)]
      else if query_data = ''confirm_delete_yes''
      then finished (clear ctx) (delete_volunteer (data_volunteer_id (data ctx)) db)
             [EditText VolunteerDeleted (Some manage_menu)]
      else if query_data = ''confirm_delete_no''
      then finished (clear ctx) db [EditText DeleteCancelled (Some manage_menu)]
      else if startswith query_data ''edit_field_''
      then (let field = py_replace query_data ''edit_field_'' [] in
            finished
              (set_state EditVolunteerStates_waiting_for_new_value
                 (ctx\<lparr>data := (data ctx)\<lparr>data_field := Some field\<rparr>\<rparr>))
              db [Answer (AskNewValue field) None, AnswerCallback])
      else finished ctx db [])"

definition paginate_records :: "string \<Rightarrow> fsm_context \<Rightarrow> database \<Rightarrow> result" where
  "paginate_records query_data ctx db =
     (if \<not> py_in ''_page_'' query_data then finished ctx db []
      else
        (case py_split query_data ''_page_'' of
           prefix # number # rest \<Rightarrow>
             (case py_int number of
                None \<Rightarrow> failed ctx db [] ValueError
              | Some page \<Rightarrow>
                  if prefix = ''volunteers''
                  then finished ctx db
                         (show_records (map VolunteerRow (get_volunteers db)) page
                            ''volunteers'' VolunteersTitle)
                  else if prefix = ''blacklist''
                  then finished ctx db
                         (show_records (map BlacklistRow (get_blacklist db)) page
                            ''blacklist'' BlacklistTitle)
                  else finished ctx db [])
         | _ \<Rightarrow> finished ctx db []))"

text \<open>
  Both handlers are registered on the dispatcher's callback-query observer with no
  filter, \<^verbatim>\<open>callbacks\<close> first and \<^verbatim>\<open>paginate_records\<close> second. The observer offers
  an event to its handlers in the order of registration and calls the first one whose
  filters accept it; the event goes no further. A handler registered without a filter
  accepts every event.
\<close>

datatype callback_handler = Handler_callbacks | Handler_paginate_records

definition callback_query_handlers :: "callback_handler list" where
  "callback_query_handlers = [Handler_callbacks, Handler_paginate_records]"

definition handler_filter :: "callback_handler \<Rightarrow> string \<Rightarrow> bool" where
  "handler_filter h query_data = True"

fun call_handler :: "callback_handler \<Rightarrow> string \<Rightarrow> fsm_context \<Rightarrow> database \<Rightarrow> result" where
  "call_handler Handler_callbacks query_data ctx db = callbacks query_data ctx db"
| "call_handler Handler_paginate_records query_data ctx db = paginate_records query_data ctx db"

definition feed_callback_query :: "string \<Rightarrow> fsm_context \<Rightarrow> database \<Rightarrow> result" where
  "feed_callback_query query_data ctx db =
     (case find (\<lambda>h. handler_filter h query_data) callback_query_handlers of
        None \<Rightarrow> finished ctx db []
      | Some h \<Rightarrow> call_handler h query_data ctx db)"

section \<open>The message handler\<close>

text \<open>The two inline keyboards built inside \<^verbatim>\<open>handle_messages\<close>.\<close>

definition edit_field_keyboard :: keyboard where
  "edit_field_keyboard =
     [[InlineKeyboardButton CapEditFullName ''edit_field_full_name'',
       InlineKeyboardButton CapEditContacts ''edit_field_contacts'']]"

definition confirm_delete_keyboard :: keyboard where
  "confirm_delete_keyboard =
     [[InlineKeyboardButton CapConfirmYes ''confirm_delete_yes'',
       InlineKeyboardButton CapConfirmNo ''confirm_delete_no'']]"

text \<open>
  The search statement matches with \<^verbatim>\<open>ILIKE\<close> against \<^verbatim>\<open>%query%\<close>: in the pattern
  \<^verbatim>\<open>%\<close> stands for any text, \<^verbatim>\<open>_\<close> for one character and a backslash takes the
  next character literally; letters are compared without case (ASCII here).
\<close>

definition lower :: "char \<Rightarrow> char" where
  "lower c = (if 65 \<le> (of_char c :: nat) \<and> (of_char c :: nat) \<le> 90
              then char_of ((of_char c :: nat) + 32) else c)"

function ilike :: "string \<Rightarrow> string \<Rightarrow> bool" where
  "ilike [] s = (s = [])"
| "ilike (p # ps) [] = (p = CHR ''%'' \<and> ilike ps [])"
| "ilike (p # ps) (c # cs) =
     (if p = CHR ''%'' then ilike ps (c # cs) \<or> ilike (p # ps) cs
      else if p = CHR ''_'' then ilike ps cs
      else if p = CHR 0x5C
      then (case ps of [] \<Rightarrow> False | q # qs \<Rightarrow> lower q = lower c \<and> ilike qs cs)
      else lower p = lower c \<and> ilike ps cs)"
  by pat_completeness auto
termination
  by (relation "measure (\<lambda>(p, s). length p + length s)") auto

definition search_volunteers :: "string \<Rightarrow> database \<Rightarrow> volunteer list" where
  "search_volunteers query_text db =
     filter (\<lambda>v. ilike (''%'' @ query_text @ ''%'') (full_name v)
                \<or> ilike (''%'' @ query_text @ ''%'') (contacts v))
       (volunteers db)"

text \<open>
  \<^verbatim>\<open>handle_messages\<close> on a message that carries text. A \<^verbatim>\<open>try\<close> with a
  \<^verbatim>\<open>finally\<close> runs the \<^verbatim>\<open>finally\<close> block on every path, also when the exception is
  not the one the \<^verbatim>\<open>except\<close> clause names; it is then raised again after the block.
\<close>

definition handle_messages :: "string \<Rightarrow> fsm_context \<Rightarrow> database \<Rightarrow> result" where
  "handle_messages text ctx db =
     (case current_state ctx of
        None \<Rightarrow> finished ctx db []
      | Some LatenessStates_waiting_for_id \<Rightarrow>
          (case py_int text of
             Some volunteer_id \<Rightarrow>
               finished (clear ctx) (fst (add_lateness volunteer_id db))
                 (snd (add_lateness volunteer_id db) @ [Answer MainMenuTitle (Some main_menu)])
           | None \<Rightarrow>
               finished (clear ctx) db
                 [Answer EnterNumber None, Answer MainMenuTitle (Some main_menu)])
      | Some WarningStates_waiting_for_id \<Rightarrow>
          (case py_int text of
             Some volunteer_id \<Rightarrow>
               finished (clear ctx) (fst (add_warning volunteer_id db))
                 (snd (add_warning volunteer_id db) @ [Answer MainMenuTitle (Some main_menu)])
           | None \<Rightarrow>
               finished (clear ctx) db
                 [Answer EnterNumber None, Answer MainMenuTitle (Some main_menu)])
      | Some BlacklistDirectStates_waiting_for_id \<Rightarrow>
          (case py_int text of
             Some volunteer_id \<Rightarrow>
               finished
                 (set_state BlacklistDirectStates_waiting_for_reason
                    (ctx\<lparr>data := (data ctx)\<lparr>data_volunteer_id := Some volunteer_id\<rparr>\<rparr>))
                 db [Answer AskBlacklistReason None]
           | None \<Rightarrow> finished ctx db [Answer EnterNumber None])
      | Some BlacklistDirectStates_waiting_for_reason \<Rightarrow>
          (case data_volunteer_id (data ctx) of
             None \<Rightarrow> failed ctx db [] KeyError
           | Some volunteer_id \<Rightarrow>
               finished (clear ctx) (fst (add_direct_blacklist volunteer_id text db))
                 (snd (add_direct_blacklist volunteer_id text db)
                  @ [Answer MainMenuTitle (Some main_menu)]))
      | Some AddVolunteerStates_waiting_for_full_name \<Rightarrow>
          finished
            (set_state AddVolunteerStates_waiting_for_contact
               (ctx\<lparr>data := (data ctx)\<lparr>data_full_name := Some text\<rparr>\<rparr>))
            db [Answer AskContact None]
      | Some AddVolunteerStates_waiting_for_contact \<Rightarrow>
          (case add_volunteer (data_full_name (data ctx)) text db of
             Inr db' \<Rightarrow>
               finished (clear ctx) db'
                 [Answer (VolunteerAdded (data_full_name (data ctx))) None,
                  Answer MainMenuTitle (Some main_menu)]
           | Inl e \<Rightarrow>
               if e = ValueError
               then finished (clear ctx) db
                      [Answer AlreadyExists None, Answer MainMenuTitle (Some main_menu)]
               else failed (clear ctx) db [Answer MainMenuTitle (Some main_menu)] e)
      | Some EditVolunteerStates_waiting_for_id \<Rightarrow>
          (case py_int text of
             Some volunteer_id \<Rightarrow>
               finished
                 (set_state EditVolunteerStates_waiting_for_field
                    (ctx\<lparr>data := (data ctx)\<lparr>data_volunteer_id := Some volunteer_id\<rparr>\<rparr>))
                 db [Answer ChooseField (Some edit_field_keyboard)]
           | None \<Rightarrow> finished ctx db [Answer EnterNumber None])
      | Some EditVolunteerStates_waiting_for_field \<Rightarrow> finished ctx db []
      | Some EditVolunteerStates_waiting_for_new_value \<Rightarrow>
          (case data_volunteer_id (data ctx) of
             None \<Rightarrow> failed ctx db [] KeyError
           | Some volunteer_id \<Rightarrow>
               (case data_field (data ctx) of
                  None \<Rightarrow> failed ctx db [] KeyError
                | Some field \<Rightarrow>
                    (case execute_edit (edit_statement field) text volunteer_id db of
                       Inl e \<Rightarrow> failed ctx db [] e
                     | Inr db' \<Rightarrow>
                         finished (clear ctx) db'
                           [Answer (FieldUpdated field text) None,
                            Answer MainMenuTitle (Some main_menu)])))
      | Some SearchVolunteerStates_waiting_for_query \<Rightarrow>
          (let found = search_volunteers (py_strip text) db in
           finished (clear ctx) db
             [Answer (if found \<noteq> [] then SearchResults found else NothingFound)
                (Some manage_menu)])
      | Some DeleteVolunteerStates_waiting_for_id \<Rightarrow>
          (case py_int text of
             Some volunteer_id \<Rightarrow>
               (case fetch_volunteer volunteer_id db of
                  None \<Rightarrow>
                    finished (clear ctx) db [Answer VolunteerNotFoundManage (Some manage_menu)]
                | Some r \<Rightarrow>
                    finished
                      (set_state DeleteVolunteerStates_confirm_delete
                         (ctx\<lparr>data := (data ctx)\<lparr>data_volunteer_id := Some volunteer_id\<rparr>\<rparr>))
                      db [Answer (ConfirmDelete (full_name r)) (Some confirm_delete_keyboard)])
           | None \<Rightarrow> finished ctx db [Answer EnterNumber None])
      | Some DeleteVolunteerStates_confirm_delete \<Rightarrow> finished ctx db [])"

section \<open>Sequences of the core operations\<close>

text \<open>
  The operations that change the tables, as the handlers invoke them: the add flow
  calls \<^verbatim>\<open>add_volunteer\<close>, the violation flows \<^verbatim>\<open>add_lateness\<close> and
  \<^verbatim>\<open>add_warning\<close>, the manual flow \<^verbatim>\<open>add_direct_blacklist\<close>, the edit flow
  executes its statement and the delete flow its \<^verbatim>\<open>DELETE\<close>. A run threads the
  database through a list of them. Beside the database a run keeps the set of ids to
  which a manual blacklisting was applied; that set is history only, no operation reads
  it.
\<close>

datatype operation =
    Add string string
  | RecordLateness int
  | RecordWarning int
  | ManualBlacklist int string
  | Edit int string string
  | Delete int

fun apply_operation :: "operation \<Rightarrow> database \<times> int set \<Rightarrow> database \<times> int set" where
  "apply_operation (Add name contact) (db, m) =
     (case add_volunteer (Some name) contact db of Inl e \<Rightarrow> (db, m) | Inr db' \<Rightarrow> (db', m))"
| "apply_operation (RecordLateness i) (db, m) = (fst (add_lateness i db), m)"
| "apply_operation (RecordWarning i) (db, m) = (fst (add_warning i db), m)"
| "apply_operation (ManualBlacklist i why) (db, m) =
     (fst (add_direct_blacklist i why db),
      if fetch_volunteer i db = None then m else insert i m)"
| "apply_operation (Edit i field new_value) (db, m) =
     (case execute_edit (edit_statement field) new_value i db of
        Inl e \<Rightarrow> (db, m) | Inr db' \<Rightarrow> (db', m))"
| "apply_operation (Delete i) (db, m) = (delete_volunteer (Some i) db, m)"

fun run :: "operation list \<Rightarrow> database \<times> int set \<Rightarrow> database \<times> int set" where
  "run [] s = s"
| "run (op # ops) s = run ops (apply_operation op s)"


fun is_recording :: "operation \<Rightarrow> bool" where
  "is_recording (RecordLateness i) = True"
| "is_recording (RecordWarning i) = True"
| "is_recording _ = False"

fun recording_of :: "int \<Rightarrow> operation \<Rightarrow> bool" where
  "recording_of i (RecordLateness j) = (j = i)"
| "recording_of i (RecordWarning j) = (j = i)"
| "recording_of i _ = False"

section \<open>Auxiliary notions for the invariant\<close>





section \<open>Lemmas on the tables\<close>



lemma find_map_update:
  "(\<And>u. vid (f u) = vid u) \<Longrightarrow>
   find (\<lambda>u. vid u = i) (map (\<lambda>u. if vid u = i then f u else u) vs)
     = map_option f (find (\<lambda>u. vid u = i) vs)"
  by (induction vs) auto

lemma fetch_volunteer_update:
  "(\<And>u. vid (f u) = vid u) \<Longrightarrow>
   fetch_volunteer i (update_volunteers f i db) = map_option f (fetch_volunteer i db)"
  by (simp add: fetch_volunteer_def update_volunteers_def find_map_update)

lemma fetch_volunteer_None:
  "fetch_volunteer i db = None \<Longrightarrow> update_volunteers f i db = db"
  by (auto simp: fetch_volunteer_def update_volunteers_def find_None_iff map_idI)


lemma volunteers_insert_blacklist [simp]:
  "volunteers (insert_blacklist n w db) = volunteers db"
  by (simp add: insert_blacklist_def)

lemma volunteers_id_seq_insert_blacklist [simp]:
  "volunteers_id_seq (insert_blacklist n w db) = volunteers_id_seq db"
  by (simp add: insert_blacklist_def)

lemma blacklist_update_volunteers [simp]:
  "blacklist (update_volunteers f i db) = blacklist db"
  "blacklist_id_seq (update_volunteers f i db) = blacklist_id_seq db"
  "volunteers_id_seq (update_volunteers f i db) = volunteers_id_seq db"
  by (simp_all add: update_volunteers_def)




section \<open>The invariant of the ledger\<close>







lemma check_and_blacklist_seq [simp]:
  "volunteers_id_seq (fst (check_and_blacklist i db)) = volunteers_id_seq db"
  by (simp add: check_and_blacklist_def Let_def split: option.splits)














section \<open>Manual blacklisting\<close>



section \<open>One blacklist entry per name\<close>

lemma unique_names_insert_blacklist:
  "distinct (map bl_full_name (blacklist db)) \<Longrightarrow>
   distinct (map bl_full_name (blacklist (insert_blacklist n w db)))"
  by (auto simp: insert_blacklist_def list_ex_iff)

lemma unique_names_check:
  "distinct (map bl_full_name (blacklist db)) \<Longrightarrow>
   distinct (map bl_full_name (blacklist (fst (check_and_blacklist i db))))"
  by (simp add: check_and_blacklist_def Let_def unique_names_insert_blacklist split: option.splits)

lemma unique_names_step:
  assumes "distinct (map bl_full_name (blacklist (fst s)))"
  shows "distinct (map bl_full_name (blacklist (fst (apply_operation op s))))"
proof -
  obtain db m where s: "s = (db, m)" by (cases s)
  show ?thesis
  proof (cases op)
    case (Add name contact)
    then show ?thesis using assms
      by (auto simp: s add_volunteer_def split: sum.splits if_splits)
  next
    case (RecordLateness i)
    then show ?thesis using assms by (simp add: s add_lateness_def unique_names_check)
  next
    case (RecordWarning i)
    then show ?thesis using assms by (simp add: s add_warning_def unique_names_check)
  next
    case (ManualBlacklist i why)
    then show ?thesis using assms
      by (simp add: s add_direct_blacklist_def unique_names_insert_blacklist split: option.splits)
  next
    case (Edit i field new_value)
    then show ?thesis using assms
      by (auto simp: s execute_edit_def split: sum.splits if_splits)
  next
    case (Delete i)
    then show ?thesis using assms by (simp add: s delete_volunteer_def)
  qed
qed

lemma unique_names_run:
  "distinct (map bl_full_name (blacklist (fst s))) \<Longrightarrow>
   distinct (map bl_full_name (blacklist (fst (run ops s))))"
  by (induction ops arbitrary: s) (simp_all add: unique_names_step)

lemma distinct_map_filter_le_1:
  "distinct (map f xs) \<Longrightarrow> length (filter (\<lambda>x. f x = a) xs) \<le> 1"
proof (induction xs)
  case Nil
  then show ?case by simp
next
  case (Cons x xs)
  then show ?case
    by (cases "f x = a") (auto simp: filter_empty_conv image_iff)
qed

text \<open>A recording against a blacklisted volunteer only counts.\<close>

lemma recording_after_promotion:
  assumes "fetch_volunteer i db = Some v" and "status v = ''Blacklisted''"
    and "recording_of i op"
  shows "blacklist (fst (apply_operation op (db, m))) = blacklist db
       \<and> (\<exists>v'. fetch_volunteer i (fst (apply_operation op (db, m))) = Some v'
                \<and> status v' = ''Blacklisted'')"
proof (cases op)
  case (RecordLateness j)
  then have j: "j = i" using assms(3) by simp
  show ?thesis
    by (simp add: RecordLateness j add_lateness_def check_and_blacklist_def
          fetch_volunteer_update assms(1,2))
next
  case (RecordWarning j)
  then have j: "j = i" using assms(3) by simp
  show ?thesis
    by (simp add: RecordWarning j add_warning_def check_and_blacklist_def
          fetch_volunteer_update assms(1,2))
qed (use assms(3) in simp_all)

lemma recordings_after_promotion:
  "fetch_volunteer i db = Some v \<Longrightarrow> status v = ''Blacklisted'' \<Longrightarrow>
   list_all (recording_of i) ops \<Longrightarrow>
   blacklist (fst (run ops (db, m))) = blacklist db"
proof (induction ops arbitrary: db v m)
  case Nil
  then show ?case by simp
next
  case (Cons op ops)
  have op: "recording_of i op" and ops: "list_all (recording_of i) ops"
    using Cons.prems(3) by simp_all
  obtain db' m' where step: "apply_operation op (db, m) = (db', m')"
    by (cases "apply_operation op (db, m)")
  from recording_after_promotion [OF Cons.prems(1,2) op, of m]
  obtain v' where "blacklist db' = blacklist db" "fetch_volunteer i db' = Some v'"
    "status v' = ''Blacklisted''"
    by (auto simp: step)
  then show ?case using Cons.IH [OF _ _ ops, of db' v' m'] by (simp add: step)
qed

text \<open>
  C8. Starting from a blacklist that holds each name at most once (the empty one does,
  and the column is declared unique), every sequence of lateness and warning recordings
  leaves at most one entry for any name; and once a volunteer is \<^verbatim>\<open>Blacklisted\<close>,
  recordings against that volunteer leave the blacklist exactly as it was.
\<close>

theorem one_blacklist_entry_per_name:
  assumes "distinct (map bl_full_name (blacklist db))" and "list_all is_recording ops"
  shows "length (filter (\<lambda>e. bl_full_name e = n) (blacklist (fst (run ops (db, m))))) \<le> 1
       \<and> ((\<exists>v. fetch_volunteer i db = Some v \<and> status v = ''Blacklisted'')
            \<and> list_all (recording_of i) ops
          \<longrightarrow> blacklist (fst (run ops (db, m))) = blacklist db)"
proof -
  have "distinct (map bl_full_name (blacklist (fst (run ops (db, m)))))"
    using assms(1) by (intro unique_names_run) simp
  then have one: "length (filter (\<lambda>e. bl_full_name e = n) (blacklist (fst (run ops (db, m))))) \<le> 1"
    by (rule distinct_map_filter_le_1)
  have kept: "(\<exists>v. fetch_volunteer i db = Some v \<and> status v = ''Blacklisted'')
            \<and> list_all (recording_of i) ops
          \<longrightarrow> blacklist (fst (run ops (db, m))) = blacklist db"
    using recordings_after_promotion by blast
  from one kept show ?thesis by (rule conjI)
qed

theorem one_blacklist_entry_per_name_witness:
  "distinct (map bl_full_name (blacklist
      \<lparr>volunteers = [\<lparr>vid = 1, full_name = ''Ann'', contacts = ''555'', status = ''Active'',
                       lateness_count = 2, warnings_count = 0\<rparr>],
       blacklist = [], volunteers_id_seq = 2, blacklist_id_seq = 1\<rparr>))
   \<and> list_all is_recording [RecordLateness 1, RecordWarning 1, RecordLateness 1]
   \<and> blacklist (fst (run [RecordLateness 1, RecordWarning 1, RecordLateness 1]
        (\<lparr>volunteers = [\<lparr>vid = 1, full_name = ''Ann'', contacts = ''555'', status = ''Active'',
                       lateness_count = 2, warnings_count = 0\<rparr>],
          blacklist = [], volunteers_id_seq = 2, blacklist_id_seq = 1\<rparr>, {})))
     = [\<lparr>bid = 1, bl_full_name = ''Ann'', reason = str_int 3 @ violations_reason\<rparr>]
   \<and> length (filter (\<lambda>e. bl_full_name e = ''Ann'')
        (blacklist (fst (run [RecordLateness 1, RecordWarning 1, RecordLateness 1]
          (\<lparr>volunteers = [\<lparr>vid = 1, full_name = ''Ann'', contacts = ''555'',
               status = ''Active'', lateness_count = 2, warnings_count = 0\<rparr>],
            blacklist = [], volunteers_id_seq = 2, blacklist_id_seq = 1\<rparr>, {}))))) \<le> 1"
proof -
  let ?db = "\<lparr>volunteers = [\<lparr>vid = 1, full_name = ''Ann'', contacts = ''555'',
                 status = ''Active'', lateness_count = 2, warnings_count = 0\<rparr>],
              blacklist = [], volunteers_id_seq = 2, blacklist_id_seq = 1\<rparr>"
  let ?ops = "[RecordLateness 1, RecordWarning 1, RecordLateness 1]"
  have u: "distinct (map bl_full_name (blacklist ?db))" by simp
  have r: "list_all is_recording ?ops" by simp
  have e: "blacklist (fst (run ?ops (?db, {})))
      = [\<lparr>bid = 1, bl_full_name = ''Ann'', reason = str_int 3 @ violations_reason\<rparr>]"
    by (simp add: add_lateness_def add_warning_def check_and_blacklist_def fetch_volunteer_def
          update_volunteers_def insert_blacklist_def Let_def)
  from one_blacklist_entry_per_name [OF u r, of "''Ann''" "{}" 0]
  have "length (filter (\<lambda>e. bl_full_name e = ''Ann'') (blacklist (fst (run ?ops (?db, {}))))) \<le> 1"
    by (rule conjunct1)
  with u r e show ?thesis by (intro conjI)
qed

section \<open>Pagination\<close>









section \<open>Routing of callbacks\<close>

lemma feed_callback_query_callbacks:
  "feed_callback_query query_data ctx db = callbacks query_data ctx db"
  by (simp add: feed_callback_query_def callback_query_handlers_def handler_filter_def)




section \<open>Where the source departs from the specification\<close>

lemma not_a_number_example: "py_int ''abc'' = None"
  by code_simp

text \<open>
  C3. The specification asks that in every state awaiting a volunteer id a text that is
  not an integer re-prompts in place. In \<^verbatim>\<open>LatenessStates.waiting_for_id\<close> and
  \<^verbatim>\<open>WarningStates.waiting_for_id\<close> the source does otherwise: the text \<^verbatim>\<open>abc\<close> is
  answered with the request for a number, and then the \<^verbatim>\<open>finally\<close> block clears the
  session, state and scratch data alike, and sends the main menu.
\<close>

theorem lateness_id_not_a_number_resets:
  "py_int ''abc'' = None
   \<and> handle_messages ''abc''
       \<lparr>current_state = Some LatenessStates_waiting_for_id,
         data = \<lparr>data_volunteer_id = None, data_full_name = Some ''Ann'', data_field = None\<rparr>\<rparr>
       db
     = \<lparr>ctx_after = \<lparr>current_state = None, data = no_data\<rparr>, db_after = db,
        sent = [Answer EnterNumber None, Answer MainMenuTitle (Some main_menu)],
        raised = None\<rparr>
   \<and> handle_messages ''abc''
       \<lparr>current_state = Some WarningStates_waiting_for_id,
         data = \<lparr>data_volunteer_id = None, data_full_name = Some ''Ann'', data_field = None\<rparr>\<rparr>
       db
     = \<lparr>ctx_after = \<lparr>current_state = None, data = no_data\<rparr>, db_after = db,
        sent = [Answer EnterNumber None, Answer MainMenuTitle (Some main_menu)],
        raised = None\<rparr>"
  by (simp add: not_a_number_example handle_messages_def finished_def clear_def)

text \<open>The three sibling states do re-prompt in place: the state and the scratch data
  stay as they were. The two violation states reset on every text that is not a
  number.\<close>

lemma id_not_a_number_reprompts:
  assumes "py_int text = None"
    and "st = BlacklistDirectStates_waiting_for_id \<or> st = EditVolunteerStates_waiting_for_id
         \<or> st = DeleteVolunteerStates_waiting_for_id"
    and "current_state ctx = Some st"
  shows "handle_messages text ctx db = finished ctx db [Answer EnterNumber None]"
  using assms by (auto simp: handle_messages_def)

lemma id_not_a_number_resets:
  assumes "py_int text = None"
    and "st = LatenessStates_waiting_for_id \<or> st = WarningStates_waiting_for_id"
    and "current_state ctx = Some st"
  shows "handle_messages text ctx db =
           finished (clear ctx) db [Answer EnterNumber None, Answer MainMenuTitle (Some main_menu)]"
  using assms by (auto simp: handle_messages_def)

lemma callbacks_ignores_page_tokens:
  "callbacks (''volunteers_page_'' @ n) ctx db = finished ctx db []"
  "callbacks (''blacklist_page_'' @ n) ctx db = finished ctx db []"
  by (simp_all add: callbacks_def startswith_def)

text \<open>
  C4. The specification asks that a callback whose token is \<^verbatim>\<open>volunteers_page_n\<close> or
  \<^verbatim>\<open>blacklist_page_n\<close> re-renders page \<open>n\<close>, before the matching of menu tokens. In
  the source the menu handler \<^verbatim>\<open>callbacks\<close> is registered first and takes every
  callback; none of its branches matches a page token, so for every \<open>n\<close> (the text
  after \<^verbatim>\<open>_page_\<close>), in every state and on every database, nothing is rendered,
  nothing changes, and \<^verbatim>\<open>paginate_records\<close> is not reached.
\<close>

theorem pagination_token_not_rendered:
  "feed_callback_query (''volunteers_page_'' @ n) ctx db
     = \<lparr>ctx_after = ctx, db_after = db, sent = [], raised = None\<rparr>
   \<and> feed_callback_query (''blacklist_page_'' @ n) ctx db
     = \<lparr>ctx_after = ctx, db_after = db, sent = [], raised = None\<rparr>"
  by (simp only: feed_callback_query_callbacks callbacks_ignores_page_tokens finished_def
        simp_thms)

text \<open>Called on its own, \<^verbatim>\<open>paginate_records\<close> would render the page, in any
  state.\<close>

lemma paginate_records_example:
  "py_split ''volunteers_page_1'' ''_page_'' = [''volunteers'', ''1'']"
  "py_in ''_page_'' ''volunteers_page_1''"
  "py_int ''1'' = Some 1"
  by code_simp+

lemma paginate_records_would_render:
  "paginate_records ''volunteers_page_1'' ctx db =
     finished ctx db
       (show_records (map VolunteerRow (get_volunteers db)) 1 ''volunteers'' VolunteersTitle)"
  by (simp add: paginate_records_def paginate_records_example)

lemma edit_statement_status:
  "edit_statement ''status'' = ''UPDATE volunteers SET status=$1 WHERE id=$2''"
  by (simp add: edit_statement_def)

text \<open>
  C5. The specification asks that the edited field be one of \<^verbatim>\<open>full_name\<close> and
  \<^verbatim>\<open>contacts\<close>. The source offers buttons for these two only, but accepts every
  callback token that starts with \<^verbatim>\<open>edit_field_\<close> and interpolates the rest into the
  statement: the token \<^verbatim>\<open>edit_field_status\<close> stores the field \<^verbatim>\<open>status\<close>, and the
  next text is written into the status column, here of a volunteer with three
  violations.
\<close>

theorem edit_field_token_reaches_statement:
  "py_replace ''edit_field_status'' ''edit_field_'' [] = ''status''
   \<and> ctx_after (feed_callback_query ''edit_field_status''
        \<lparr>current_state = Some EditVolunteerStates_waiting_for_field,
          data = \<lparr>data_volunteer_id = Some 1, data_full_name = None, data_field = None\<rparr>\<rparr> db)
     = \<lparr>current_state = Some EditVolunteerStates_waiting_for_new_value,
        data = \<lparr>data_volunteer_id = Some 1, data_full_name = None,
                 data_field = Some ''status''\<rparr>\<rparr>
   \<and> edit_statement ''status'' = ''UPDATE volunteers SET status=$1 WHERE id=$2''
   \<and> handle_messages ''Active''
        \<lparr>current_state = Some EditVolunteerStates_waiting_for_new_value,
          data = \<lparr>data_volunteer_id = Some 1, data_full_name = None,
                   data_field = Some ''status''\<rparr>\<rparr>
        \<lparr>volunteers = [\<lparr>vid = 1, full_name = ''Ann'', contacts = ''555'',
                         status = ''Blacklisted'', lateness_count = 3, warnings_count = 0\<rparr>],
          blacklist = [\<lparr>bid = 1, bl_full_name = ''Ann'',
                        reason = str_int 3 @ violations_reason\<rparr>],
          volunteers_id_seq = 2, blacklist_id_seq = 2\<rparr>
     = \<lparr>ctx_after = \<lparr>current_state = None, data = no_data\<rparr>,
        db_after =
          \<lparr>volunteers = [\<lparr>vid = 1, full_name = ''Ann'', contacts = ''555'',
                           status = ''Active'', lateness_count = 3, warnings_count = 0\<rparr>],
            blacklist = [\<lparr>bid = 1, bl_full_name = ''Ann'',
                          reason = str_int 3 @ violations_reason\<rparr>],
            volunteers_id_seq = 2, blacklist_id_seq = 2\<rparr>,
        sent = [Answer (FieldUpdated ''status'' ''Active'') None,
                Answer MainMenuTitle (Some main_menu)],
        raised = None\<rparr>"
proof -
  have r: "py_replace ''edit_field_status'' ''edit_field_'' [] = ''status''"
    by code_simp
  have c: "callbacks ''edit_field_status'' ctx db =
      finished
        (set_state EditVolunteerStates_waiting_for_new_value
           (ctx\<lparr>data := (data ctx)\<lparr>data_field := Some ''status''\<rparr>\<rparr>))
        db [Answer (AskNewValue ''status'') None, AnswerCallback]" for ctx
    by (simp add: callbacks_def startswith_def r Let_def)
  have a: "ctx_after (feed_callback_query ''edit_field_status''
        \<lparr>current_state = Some EditVolunteerStates_waiting_for_field,
          data = \<lparr>data_volunteer_id = Some 1, data_full_name = None, data_field = None\<rparr>\<rparr> db)
     = \<lparr>current_state = Some EditVolunteerStates_waiting_for_new_value,
        data = \<lparr>data_volunteer_id = Some 1, data_full_name = None,
                 data_field = Some ''status''\<rparr>\<rparr>"
    by (simp add: c feed_callback_query_callbacks finished_def set_state_def)
  have e: "edit_statement ''status'' = ''UPDATE volunteers SET status=$1 WHERE id=$2''"
    by (simp add: edit_statement_def)
  have h: "handle_messages ''Active''
        \<lparr>current_state = Some EditVolunteerStates_waiting_for_new_value,
          data = \<lparr>data_volunteer_id = Some 1, data_full_name = None,
                   data_field = Some ''status''\<rparr>\<rparr>
        \<lparr>volunteers = [\<lparr>vid = 1, full_name = ''Ann'', contacts = ''555'',
                         status = ''Blacklisted'', lateness_count = 3, warnings_count = 0\<rparr>],
          blacklist = [\<lparr>bid = 1, bl_full_name = ''Ann'',
                        reason = str_int 3 @ violations_reason\<rparr>],
          volunteers_id_seq = 2, blacklist_id_seq = 2\<rparr>
     = \<lparr>ctx_after = \<lparr>current_state = None, data = no_data\<rparr>,
        db_after =
          \<lparr>volunteers = [\<lparr>vid = 1, full_name = ''Ann'', contacts = ''555'',
                           status = ''Active'', lateness_count = 3, warnings_count = 0\<rparr>],
            blacklist = [\<lparr>bid = 1, bl_full_name = ''Ann'',
                          reason = str_int 3 @ violations_reason\<rparr>],
            volunteers_id_seq = 2, blacklist_id_seq = 2\<rparr>,
        sent = [Answer (FieldUpdated ''status'' ''Active'') None,
                Answer MainMenuTitle (Some main_menu)],
        raised = None\<rparr>"
    by (simp add: finished_def clear_def handle_messages_def execute_edit_def
          edit_statement_def update_volunteers_def)
  from r a e h show ?thesis by (intro conjI)
qed

end
